theory Spec2Isabelle
  imports Complex_Main
begin

section \<open>Shared value types\<close>

text \<open>
  JavaScript numbers that carry colour channels, sizes and offsets are modelled as
  \<^typ>\<open>real\<close> (floating-point rounding is not modelled); voxel coordinates and voxel-grid
  dimensions are integers (\<^typ>\<open>int\<close>), as the data model states.
\<close>

datatype 'a Vector3 = Vector3 (vx: 'a) (vy: 'a) (vz: 'a)

text \<open>
  The class \<open>Vector3\<close> (\<open>./vector\<close>) is used by the renderer and by the tests, but its
  source is absent.
\<close>

text \<open>
  Modelled from the spec: \<open>add\<close> of the absent \<open>Vector3\<close>, called with a number, adds it to
  every component ("expanded by one cell", "\<open>dimensions+1\<close>").
\<close>

definition Vector3_addScalar :: "'a::plus Vector3 \<Rightarrow> 'a \<Rightarrow> 'a Vector3" where
  "Vector3_addScalar v s = Vector3 (vx v + s) (vy v + s) (vz v + s)"

text \<open>
  Modelled from the spec: \<open>Vector3.mulScalar\<close> of the absent \<open>Vector3\<close> scales every
  component ("\<open>(dimensions+1)*voxelSize\<close>").
\<close>

definition Vector3_mulScalar :: "'a::times Vector3 \<Rightarrow> 'a \<Rightarrow> 'a Vector3" where
  "Vector3_mulScalar v s = Vector3 (vx v * s) (vy v * s) (vz v * s)"

text \<open>
  Modelled from the spec: \<open>add\<close> of the absent \<open>Vector3\<close>, called with a vector, is the
  componentwise sum ("\<open>position + offset\<close>").
\<close>

definition Vector3_add :: "'a::plus Vector3 \<Rightarrow> 'a Vector3 \<Rightarrow> 'a Vector3" where
  "Vector3_add v w = Vector3 (vx v + vx w) (vy v + vy w) (vz v + vz w)"

text \<open>
  Modelled from the spec: the opposite direction of an offset, the componentwise negation of
  the absent \<open>Vector3\<close>.
\<close>

definition Vector3_negate :: "'a::uminus Vector3 \<Rightarrow> 'a Vector3" where
  "Vector3_negate v = Vector3 (- vx v) (- vy v) (- vz v)"

text \<open>An integer vector read as a vector of numbers.\<close>

definition Vector3_of_int :: "int Vector3 \<Rightarrow> real Vector3" where
  "Vector3_of_int v = Vector3 (of_int (vx v)) (of_int (vy v)) (of_int (vz v))"

datatype RGBA = RGBA (rgba_r: real) (rgba_g: real) (rgba_b: real) (rgba_a: real)

text \<open>
  Modelled from the spec: \<open>RGBAUtil.copy\<close> of the absent \<open>./colour\<close>, a new colour object
  with the same four channels.
\<close>

definition RGBAUtil_copy :: "RGBA \<Rightarrow> RGBA" where
  "RGBAUtil_copy c = RGBA (rgba_r c) (rgba_g c) (rgba_b c) (rgba_a c)"

text \<open>
  The remainder operator \<open>%\<close> of JavaScript on integers: the result takes the sign of the
  dividend (truncated division).
\<close>

definition js_rem :: "int \<Rightarrow> int \<Rightarrow> int" where
  "js_rem a b = sgn a * (\<bar>a\<bar> mod \<bar>b\<bar>)"

section \<open>The renderer (\<open>Renderer\<close>)\<close>

subsection \<open>Data\<close>

datatype MeshType = MeshType_None | MeshType_TriangleMesh | MeshType_VoxelMesh | MeshType_BlockMesh

text \<open>The numeric value of the enum member, which \<open>setModelToUse\<close> compares with the watermark.\<close>

fun MeshType_value :: "MeshType \<Rightarrow> nat" where
  "MeshType_value MeshType_None = 0"
| "MeshType_value MeshType_TriangleMesh = 1"
| "MeshType_value MeshType_VoxelMesh = 2"
| "MeshType_value MeshType_BlockMesh = 3"

datatype EDebugBufferComponents = Wireframe | Normals | Bounds | Dev

datatype GLenum = GL_LINEAR | GL_NEAREST | GL_CLAMP_TO_EDGE | GL_REPEAT

text \<open>
  The WebGL binding (\<open>twgl\<close>) is external. A texture is represented by the options it was
  created with, a buffer by the arrays it was created from; the factories are the
  constructors \<open>createTexture\<close> and \<open>createBufferInfoFromArrays\<close>.
\<close>

record TextureOptions =
  opt_src :: string
  opt_min :: "GLenum option"
  opt_mag :: "GLenum option"
  opt_wrap :: "GLenum option"

datatype WebGLTexture = createTexture TextureOptions

type_synonym Arrays = "(string \<times> real list) list"

datatype BufferInfo = createBufferInfoFromArrays Arrays

datatype TInterpolation = interp_nearest | interp_linear

datatype TExtension = ext_clamp | ext_repeat

record SolidMaterial =
  solid_colour :: RGBA
  solid_needsAttention :: bool
  solid_canBeTextured :: bool

record TexturedMaterial =
  tex_path :: string
  tex_alphaPath :: "string option"
  tex_interpolation :: TInterpolation
  tex_extension :: TExtension
  tex_alphaFactor :: real
  tex_canBeTextured :: bool
  tex_needsAttention :: bool

text \<open>The field \<open>type\<close> of a material is the constructor.\<close>

datatype Material = Solid SolidMaterial | Textured TexturedMaterial

text \<open>\<open>TexturedMaterial & TextureMaterialRenderAddons\<close>\<close>

record TexturedRenderMaterial = TexturedMaterial +
  texture :: WebGLTexture
  alpha :: "WebGLTexture option"
  useAlphaChannel :: "bool option"

datatype RenderMaterial = RenderSolid SolidMaterial | RenderTextured TexturedRenderMaterial

record MaterialBuffer =
  mb_material :: RenderMaterial
  mb_buffer :: BufferInfo
  mb_numElements :: nat
  mb_materialName :: string

text \<open>
  \<open>DebugGeometryTemplates.gridX/gridY/gridZ\<close> are external; a grid buffer is represented by
  the call that built it: the dimensions and the optional spacing.
\<close>

datatype RenderBuffer =
    gridX "real Vector3" "real option"
  | gridY "real Vector3" "real option"
  | gridZ "real Vector3" "real option"

record Renderer =
  atlasTexture :: "WebGLTexture option"
  atlasSize :: real
  meshToUse :: MeshType
  voxelSize :: real
  gridOffset :: "real Vector3"
  modelsAvailable :: nat
  materialBuffers :: "string \<rightharpoonup> MaterialBuffer"
  voxelBuffer :: "BufferInfo list option"
  blockBuffer :: "BufferInfo list option"
  isGridComponentEnabled :: "EDebugBufferComponents \<Rightarrow> bool"
  axesEnabled :: bool
  nightVisionEnabled :: bool
  gridBuffers_x :: "MeshType \<rightharpoonup> RenderBuffer"
  gridBuffers_y :: "MeshType \<rightharpoonup> RenderBuffer"
  gridBuffers_z :: "MeshType \<rightharpoonup> RenderBuffer"
  gridEnabled :: bool
  lightingAvailable :: bool
  allVoxelChunks :: bool

text \<open>
  The state the constructor and the field initialisers leave. The GL context, the background
  colour, the axis buffer and the (never written) debug buffers only feed \<open>draw\<close> and are
  left out.
\<close>

definition Renderer_new :: Renderer where
  "Renderer_new = \<lparr>
     atlasTexture = None,
     atlasSize = 1,
     meshToUse = MeshType_None,
     voxelSize = 1,
     gridOffset = Vector3 0 0 0,
     modelsAvailable = 0,
     materialBuffers = Map.empty,
     voxelBuffer = None,
     blockBuffer = None,
     isGridComponentEnabled = (\<lambda>_. False),
     axesEnabled = False,
     nightVisionEnabled = True,
     gridBuffers_x = Map.empty,
     gridBuffers_y = Map.empty,
     gridBuffers_z = Map.empty,
     gridEnabled = False,
     lightingAvailable = False,
     allVoxelChunks = False \<rparr>"

subsection \<open>Inputs\<close>

record MeshBufferEntry =
  in_material :: Material
  in_buffer :: Arrays
  in_numElements :: nat
  in_materialName :: string

record RenderMeshParams =
  mesh_buffers :: "MeshBufferEntry list"
  mesh_dimensions :: "real Vector3"

record RenderNextVoxelMeshChunkParams =
  voxel_buffer :: Arrays
  voxel_dimensions :: "int Vector3"
  voxel_voxelSize :: real
  voxel_moreVoxelsToBuffer :: bool
  voxel_isFirstChunk :: bool

record RenderNextBlockMeshChunkParams =
  block_buffer :: Arrays
  block_atlasTexturePath :: string
  block_atlasSize :: real
  block_isFirstChunk :: bool

text \<open>
  Modelled from the spec: \<open>ASSERT\<close> of the absent \<open>./util/error_util\<close> is a fatal assertion;
  a condition that is false ends the call with this error.
\<close>

datatype error = AssertionError

subsection \<open>Operations\<close>

definition setModelToUse :: "Renderer \<Rightarrow> MeshType \<Rightarrow> Renderer" where
  "setModelToUse r meshType =
     (let isModelAvailable = (modelsAvailable r \<ge> MeshType_value meshType)
      in if isModelAvailable then r\<lparr>meshToUse := meshType\<rparr> else r)"

definition setLightingAvailable :: "Renderer \<Rightarrow> bool \<Rightarrow> Renderer" where
  "setLightingAvailable r isAvailable =
     (let r1 = r\<lparr>lightingAvailable := isAvailable\<rparr>
      in if \<not> isAvailable then r1\<lparr>nightVisionEnabled := True\<rparr> else r1)"

definition toggleIsGridEnabled :: "Renderer \<Rightarrow> Renderer" where
  "toggleIsGridEnabled r = r\<lparr>gridEnabled := \<not> gridEnabled r\<rparr>"

definition toggleIsAxesEnabled :: "Renderer \<Rightarrow> Renderer" where
  "toggleIsAxesEnabled r = r\<lparr>axesEnabled := \<not> axesEnabled r\<rparr>"

definition toggleIsNightVisionEnabled :: "Renderer \<Rightarrow> Renderer" where
  "toggleIsNightVisionEnabled r =
     (let r1 = r\<lparr>nightVisionEnabled := \<not> nightVisionEnabled r\<rparr>
      in if \<not> lightingAvailable r1 then r1\<lparr>nightVisionEnabled := True\<rparr> else r1)"

definition toggleComponent :: "Renderer \<Rightarrow> EDebugBufferComponents \<Rightarrow> Renderer" where
  "toggleComponent r c =
     (let isEnabled = \<not> isGridComponentEnabled r c
      in r\<lparr>isGridComponentEnabled := (isGridComponentEnabled r)(c := isEnabled)\<rparr>)"

definition toggleIsWireframeEnabled :: "Renderer \<Rightarrow> Renderer" where
  "toggleIsWireframeEnabled r = toggleComponent r Wireframe"

definition toggleIsNormalsEnabled :: "Renderer \<Rightarrow> Renderer" where
  "toggleIsNormalsEnabled r = toggleComponent r Normals"

definition toggleIsDevDebugEnabled :: "Renderer \<Rightarrow> Renderer" where
  "toggleIsDevDebugEnabled r = toggleComponent r Dev"

definition clearMesh :: "Renderer \<Rightarrow> Renderer" where
  "clearMesh r =
     (let r1 = r\<lparr>materialBuffers := Map.empty\<rparr>;
          r2 = r1\<lparr>modelsAvailable := 0\<rparr>
      in setModelToUse r2 MeshType_None)"

text \<open>A JavaScript string used as a condition: \<open>undefined\<close> and the empty string are falsy.\<close>

definition truthy :: "string option \<Rightarrow> bool" where
  "truthy s = (case s of None \<Rightarrow> False | Some t \<Rightarrow> t \<noteq> [])"

definition filterOf :: "TInterpolation \<Rightarrow> GLenum" where
  "filterOf i = (if i = interp_linear then GL_LINEAR else GL_NEAREST)"

definition wrapOf :: "TExtension \<Rightarrow> GLenum" where
  "wrapOf e = (if e = ext_clamp then GL_CLAMP_TO_EDGE else GL_REPEAT)"

text \<open>
  The object literal that \<open>recreateMaterialBuffer\<close>, \<open>updateMeshMaterialTexture\<close> and
  \<open>useMesh\<close> each build for a textured material (the three literals list the same fields;
  none copies \<open>alphaPath\<close>). \<open>uac path alphaPath\<close> stands for the external
  \<open>new Texture(path, alphaPath)._useAlphaChannel()\<close>.
\<close>

definition texturedRenderMaterial ::
  "(string \<Rightarrow> string \<Rightarrow> bool) \<Rightarrow> TexturedMaterial \<Rightarrow> TexturedRenderMaterial" where
  "texturedRenderMaterial uac material = \<lparr>
     tex_path = tex_path material,
     tex_alphaPath = None,
     tex_interpolation = tex_interpolation material,
     tex_extension = tex_extension material,
     tex_alphaFactor = tex_alphaFactor material,
     tex_canBeTextured = tex_canBeTextured material,
     tex_needsAttention = tex_needsAttention material,
     texture = createTexture \<lparr>
       opt_src = tex_path material,
       opt_min = Some (filterOf (tex_interpolation material)),
       opt_mag = Some (filterOf (tex_interpolation material)),
       opt_wrap = Some (wrapOf (tex_extension material)) \<rparr>,
     alpha = (if truthy (tex_alphaPath material)
              then Some (createTexture \<lparr>
                opt_src = the (tex_alphaPath material),
                opt_min = Some (filterOf (tex_interpolation material)),
                opt_mag = Some (filterOf (tex_interpolation material)),
                opt_wrap = Some (wrapOf (tex_extension material)) \<rparr>)
              else None),
     useAlphaChannel = (if truthy (tex_alphaPath material)
              then Some (uac (tex_path material) (the (tex_alphaPath material)))
              else None) \<rparr>"

definition recreateMaterialBuffer ::
  "(string \<Rightarrow> string \<Rightarrow> bool) \<Rightarrow> Renderer \<Rightarrow> string \<Rightarrow> Material \<Rightarrow> error + Renderer" where
  "recreateMaterialBuffer uac r materialName material =
     (case materialBuffers r materialName of
        None \<Rightarrow> Inl AssertionError
      | Some oldBuffer \<Rightarrow>
          (case material of
             Solid m \<Rightarrow>
               Inr (r\<lparr>materialBuffers := (materialBuffers r)(materialName \<mapsto> \<lparr>
                      mb_material = RenderSolid \<lparr>
                        solid_colour = RGBAUtil_copy (solid_colour m),
                        solid_needsAttention = solid_needsAttention m,
                        solid_canBeTextured = solid_canBeTextured m \<rparr>,
                      mb_buffer = mb_buffer oldBuffer,
                      mb_numElements = mb_numElements oldBuffer,
                      mb_materialName = materialName \<rparr>)\<rparr>)
           | Textured m \<Rightarrow>
               Inr (r\<lparr>materialBuffers := (materialBuffers r)(materialName \<mapsto> \<lparr>
                      mb_material = RenderTextured (texturedRenderMaterial uac m),
                      mb_buffer = mb_buffer oldBuffer,
                      mb_numElements = mb_numElements oldBuffer,
                      mb_materialName = materialName \<rparr>)\<rparr>)))"

text \<open>
  \<open>forEach\<close> visits every entry; the \<open>return\<close> only leaves the callback of that entry.
\<close>

definition updateMeshMaterialTexture ::
  "(string \<Rightarrow> string \<Rightarrow> bool) \<Rightarrow> Renderer \<Rightarrow> string \<Rightarrow> TexturedMaterial \<Rightarrow> Renderer" where
  "updateMeshMaterialTexture uac r materialName material =
     r\<lparr>materialBuffers := (\<lambda>k.
        map_option
          (\<lambda>buffer. if mb_materialName buffer = materialName
                     then buffer\<lparr>mb_material := RenderTextured (texturedRenderMaterial uac material)\<rparr>
                     else buffer)
          (materialBuffers r k))\<rparr>"

definition useMesh_entry ::
  "(string \<Rightarrow> string \<Rightarrow> bool) \<Rightarrow> (string \<rightharpoonup> MaterialBuffer) \<Rightarrow> MeshBufferEntry
     \<Rightarrow> (string \<rightharpoonup> MaterialBuffer)" where
  "useMesh_entry uac m e =
     (case in_material e of
        Solid material \<Rightarrow>
          m(in_materialName e \<mapsto> \<lparr>
              mb_material = RenderSolid material,
              mb_buffer = createBufferInfoFromArrays (in_buffer e),
              mb_numElements = in_numElements e,
              mb_materialName = in_materialName e \<rparr>)
      | Textured material \<Rightarrow>
          m(in_materialName e \<mapsto> \<lparr>
              mb_material = RenderTextured (texturedRenderMaterial uac material),
              mb_buffer = createBufferInfoFromArrays (in_buffer e),
              mb_numElements = in_numElements e,
              mb_materialName = in_materialName e \<rparr>))"

definition useMesh :: "(string \<Rightarrow> string \<Rightarrow> bool) \<Rightarrow> Renderer \<Rightarrow> RenderMeshParams \<Rightarrow> Renderer" where
  "useMesh uac r params =
     (let r1 = r\<lparr>materialBuffers := foldl (useMesh_entry uac) Map.empty (mesh_buffers params)\<rparr>;
          r2 = r1\<lparr>gridBuffers_x := (gridBuffers_x r1)(MeshType_TriangleMesh \<mapsto> gridX (mesh_dimensions params) None)\<rparr>;
          r3 = r2\<lparr>gridBuffers_y := (gridBuffers_y r2)(MeshType_TriangleMesh \<mapsto> gridY (mesh_dimensions params) None)\<rparr>;
          r4 = r3\<lparr>gridBuffers_z := (gridBuffers_z r3)(MeshType_TriangleMesh \<mapsto> gridZ (mesh_dimensions params) None)\<rparr>;
          r5 = r4\<lparr>modelsAvailable := 1\<rparr>
      in setModelToUse r5 MeshType_TriangleMesh)"

text \<open>\<open>this._voxelBuffer?.push(b)\<close>: nothing happens while the list is \<open>undefined\<close>.\<close>

definition push_opt :: "'a list option \<Rightarrow> 'a \<Rightarrow> 'a list option" where
  "push_opt l b = (case l of None \<Rightarrow> None | Some bs \<Rightarrow> Some (bs @ [b]))"

definition gridOffsetComponent :: "int \<Rightarrow> real" where
  "gridOffsetComponent d = (if js_rem d 2 = 0 then 0 else - 0.5)"

definition useVoxelMeshChunk :: "Renderer \<Rightarrow> RenderNextVoxelMeshChunkParams \<Rightarrow> Renderer" where
  "useVoxelMeshChunk r params =
     (let r1 = (if voxel_isFirstChunk params then r\<lparr>voxelBuffer := Some []\<rparr> else r);
          r2 = r1\<lparr>allVoxelChunks := \<not> voxel_moreVoxelsToBuffer params\<rparr>;
          r3 = r2\<lparr>voxelBuffer := push_opt (voxelBuffer r2) (createBufferInfoFromArrays (voxel_buffer params))\<rparr>;
          r4 = r3\<lparr>voxelSize := voxel_voxelSize params\<rparr>
      in if voxel_isFirstChunk params then
           (let vsize = voxelSize r4;
                dimensions = voxel_dimensions params;
                r5 = r4\<lparr>gridOffset := Vector3
                         (gridOffsetComponent (vx dimensions))
                         (gridOffsetComponent (vy dimensions))
                         (gridOffsetComponent (vz dimensions))\<rparr>;
                dimensions1 = Vector3_of_int (Vector3_addScalar dimensions 1);
                r6 = r5\<lparr>gridBuffers_x := (gridBuffers_x r5)(MeshType_VoxelMesh \<mapsto>
                          gridX (Vector3_mulScalar dimensions1 vsize) (Some vsize))\<rparr>;
                r7 = r6\<lparr>gridBuffers_y := (gridBuffers_y r6)(MeshType_VoxelMesh \<mapsto>
                          gridY (Vector3_mulScalar dimensions1 vsize) (Some vsize))\<rparr>;
                r8 = r7\<lparr>gridBuffers_z := (gridBuffers_z r7)(MeshType_VoxelMesh \<mapsto>
                          gridZ (Vector3_mulScalar dimensions1 vsize) (Some vsize))\<rparr>;
                r9 = r8\<lparr>modelsAvailable := 2\<rparr>
            in setModelToUse r9 MeshType_VoxelMesh)
         else r4)"

definition useBlockMeshChunk :: "Renderer \<Rightarrow> RenderNextBlockMeshChunkParams \<Rightarrow> Renderer" where
  "useBlockMeshChunk r params =
     (let r1 = (if block_isFirstChunk params then r\<lparr>blockBuffer := Some []\<rparr> else r);
          r2 = r1\<lparr>blockBuffer := push_opt (blockBuffer r1) (createBufferInfoFromArrays (block_buffer params))\<rparr>
      in if block_isFirstChunk params then
           (let r3 = r2\<lparr>atlasTexture := Some (createTexture \<lparr>
                          opt_src = block_atlasTexturePath params,
                          opt_min = None,
                          opt_mag = Some GL_NEAREST,
                          opt_wrap = None \<rparr>)\<rparr>;
                r4 = r3\<lparr>atlasSize := block_atlasSize params\<rparr>;
                r5 = r4\<lparr>gridBuffers_y := (gridBuffers_y r4)(MeshType_BlockMesh := gridBuffers_y r4 MeshType_VoxelMesh)\<rparr>;
                r6 = r5\<lparr>modelsAvailable := 3\<rparr>
            in setModelToUse r6 MeshType_BlockMesh)
         else r2)"

text \<open>
  The public operations as values, so that a sequence of calls is a list. \<open>update\<close>,
  \<open>draw\<close> and \<open>parseRawMeshData\<close> write none of the fields above.
\<close>

datatype RendererOp =
    Op_update
  | Op_draw
  | Op_setLightingAvailable bool
  | Op_toggleIsGridEnabled
  | Op_toggleIsAxesEnabled
  | Op_toggleIsNightVisionEnabled
  | Op_toggleIsWireframeEnabled
  | Op_toggleIsNormalsEnabled
  | Op_toggleIsDevDebugEnabled
  | Op_clearMesh
  | Op_recreateMaterialBuffer string Material
  | Op_updateMeshMaterialTexture string TexturedMaterial
  | Op_useMesh RenderMeshParams
  | Op_useVoxelMeshChunk RenderNextVoxelMeshChunkParams
  | Op_useBlockMeshChunk RenderNextBlockMeshChunkParams
  | Op_parseRawMeshData
  | Op_setModelToUse MeshType

fun Renderer_step :: "(string \<Rightarrow> string \<Rightarrow> bool) \<Rightarrow> Renderer \<Rightarrow> RendererOp \<Rightarrow> error + Renderer" where
  "Renderer_step uac r Op_update = Inr r"
| "Renderer_step uac r Op_draw = Inr r"
| "Renderer_step uac r (Op_setLightingAvailable b) = Inr (setLightingAvailable r b)"
| "Renderer_step uac r Op_toggleIsGridEnabled = Inr (toggleIsGridEnabled r)"
| "Renderer_step uac r Op_toggleIsAxesEnabled = Inr (toggleIsAxesEnabled r)"
| "Renderer_step uac r Op_toggleIsNightVisionEnabled = Inr (toggleIsNightVisionEnabled r)"
| "Renderer_step uac r Op_toggleIsWireframeEnabled = Inr (toggleIsWireframeEnabled r)"
| "Renderer_step uac r Op_toggleIsNormalsEnabled = Inr (toggleIsNormalsEnabled r)"
| "Renderer_step uac r Op_toggleIsDevDebugEnabled = Inr (toggleIsDevDebugEnabled r)"
| "Renderer_step uac r Op_clearMesh = Inr (clearMesh r)"
| "Renderer_step uac r (Op_recreateMaterialBuffer n m) = recreateMaterialBuffer uac r n m"
| "Renderer_step uac r (Op_updateMeshMaterialTexture n m) = Inr (updateMeshMaterialTexture uac r n m)"
| "Renderer_step uac r (Op_useMesh p) = Inr (useMesh uac r p)"
| "Renderer_step uac r (Op_useVoxelMeshChunk p) = Inr (useVoxelMeshChunk r p)"
| "Renderer_step uac r (Op_useBlockMeshChunk p) = Inr (useBlockMeshChunk r p)"
| "Renderer_step uac r Op_parseRawMeshData = Inr r"
| "Renderer_step uac r (Op_setModelToUse s) = Inr (setModelToUse r s)"

text \<open>A sequence of calls stops at the first failed assertion.\<close>

fun Renderer_run :: "(string \<Rightarrow> string \<Rightarrow> bool) \<Rightarrow> Renderer \<Rightarrow> RendererOp list \<Rightarrow> error + Renderer" where
  "Renderer_run uac r [] = Inr r"
| "Renderer_run uac r (op # ops) =
     (case Renderer_step uac r op of Inl e \<Rightarrow> Inl e | Inr r' \<Rightarrow> Renderer_run uac r' ops)"

text \<open>Which calls are a first chunk of the voxel stage, of the block stage.\<close>

definition isFirstVoxelChunkOp :: "RendererOp \<Rightarrow> bool" where
  "isFirstVoxelChunkOp op =
     (case op of Op_useVoxelMeshChunk p \<Rightarrow> voxel_isFirstChunk p | _ \<Rightarrow> False)"

definition isFirstBlockChunkOp :: "RendererOp \<Rightarrow> bool" where
  "isFirstBlockChunkOp op =
     (case op of Op_useBlockMeshChunk p \<Rightarrow> block_isFirstChunk p | _ \<Rightarrow> False)"

subsection \<open>Invariants of the renderer state\<close>

text \<open>The active stage does not exceed the watermark.\<close>

definition stage_ok :: "Renderer \<Rightarrow> bool" where
  "stage_ok r = (MeshType_value (meshToUse r) \<le> modelsAvailable r)"

text \<open>Every entry of the material map is stored under its own \<open>materialName\<close>.\<close>

definition names_ok :: "(string \<rightharpoonup> MaterialBuffer) \<Rightarrow> bool" where
  "names_ok m = (\<forall>k e. m k = Some e \<longrightarrow> mb_materialName e = k)"

section \<open>The voxel mesh (\<open>VoxelMesh\<close>)\<close>

text \<open>
  The class \<open>VoxelMesh\<close> (\<open>./voxel_mesh\<close>) is not among the sources; its tests are
  (\<open>Voxel neighbours\<close>, \<open>Add voxel\<close>, \<open>Voxel overlap first\<close>, \<open>Voxel overlap average\<close>).
  The definitions of this section follow the specification, and where the specification and
  the tests disagree they follow the tests.
\<close>

text \<open>Modelled from the spec: the overlap rule of the absent \<open>VoxelMesh\<close>, \<open>first\<close> or \<open>average\<close>.\<close>

datatype TVoxelOverlapRule = overlap_first | overlap_average

text \<open>
  Modelled from the spec: the configuration the absent \<open>VoxelMesh\<close> constructor takes, fixed
  at construction (overlap rule, ambient-occlusion flag).
\<close>

record VoxelMeshParams =
  voxelOverlapRule :: TVoxelOverlapRule
  enableAmbientOcclusion :: bool

text \<open>
  Modelled from the spec: a voxel of the absent \<open>VoxelMesh\<close>, a unit cell at an integer
  coordinate holding a colour.
\<close>

record Voxel =
  position :: "int Vector3"
  colour :: RGBA

text \<open>
  Modelled from the spec: the result of \<open>getNeighbours\<close> of the absent \<open>VoxelMesh\<close>: the
  occupied ones among the 26 offsets and the count of occupied key directions (the field
  \<open>value\<close> the test reads).
\<close>

record NeighbourInfo =
  occupied :: "int Vector3 list"
  keyDirections :: nat

text \<open>
  Modelled from the spec: the state of the absent \<open>VoxelMesh\<close>: the mapping from coordinate
  to voxel, the running count of colours written per coordinate, and the adjacency
  relationships \<open>(position, direction)\<close> registered by neighbour computations so far.
\<close>

record VoxelMesh =
  voxelMeshParams :: VoxelMeshParams
  voxels :: "int Vector3 \<rightharpoonup> Voxel"
  counts :: "int Vector3 \<Rightarrow> nat"
  neighbourMap :: "(int Vector3 \<times> int Vector3) set"

text \<open>Modelled from the spec: the absent constructor; a mesh is created empty.\<close>

definition VoxelMesh_new :: "VoxelMeshParams \<Rightarrow> VoxelMesh" where
  "VoxelMesh_new ps =
     \<lparr> voxelMeshParams = ps, voxels = Map.empty, counts = (\<lambda>_. 0), neighbourMap = {} \<rparr>"

text \<open>Modelled from the spec: the absent \<open>VoxelMesh.isVoxelAt\<close>, an existence check.\<close>

definition isVoxelAt :: "VoxelMesh \<Rightarrow> int Vector3 \<Rightarrow> bool" where
  "isVoxelAt m pos = (voxels m pos \<noteq> None)"

text \<open>
  Modelled from the spec: the absent \<open>VoxelMesh.getVoxelAt\<close>, the stored voxel or an explicit
  "not found".
\<close>

definition getVoxelAt :: "VoxelMesh \<Rightarrow> int Vector3 \<Rightarrow> Voxel option" where
  "getVoxelAt m pos = voxels m pos"

text \<open>
  Modelled from the spec: the incremental mean of the absent \<open>VoxelMesh.addVoxel\<close>,
  \<open>new_avg = old_avg + (new_colour - old_avg) / count\<close>, on each channel.
\<close>

definition averageStep :: "RGBA \<Rightarrow> RGBA \<Rightarrow> nat \<Rightarrow> RGBA" where
  "averageStep old_avg new_colour n =
     RGBA (rgba_r old_avg + (rgba_r new_colour - rgba_r old_avg) / real n)
          (rgba_g old_avg + (rgba_g new_colour - rgba_g old_avg) / real n)
          (rgba_b old_avg + (rgba_b new_colour - rgba_b old_avg) / real n)
          (rgba_a old_avg + (rgba_a new_colour - rgba_a old_avg) / real n)"

text \<open>
  Modelled from the spec: the absent \<open>VoxelMesh.addVoxel\<close>. A free coordinate receives the
  voxel with count 1. On an occupied coordinate the rule \<open>first\<close> ignores the write and the
  rule \<open>average\<close> folds the colour into the running mean. It always succeeds.
\<close>

definition addVoxel :: "VoxelMesh \<Rightarrow> int Vector3 \<Rightarrow> RGBA \<Rightarrow> VoxelMesh" where
  "addVoxel m pos c =
     (case voxels m pos of
        None \<Rightarrow> m\<lparr>voxels := (voxels m)(pos \<mapsto> \<lparr> position = pos, colour = c \<rparr>),
                  counts := (counts m)(pos := 1)\<rparr>
      | Some v \<Rightarrow>
          (case voxelOverlapRule (voxelMeshParams m) of
             overlap_first \<Rightarrow> m
           | overlap_average \<Rightarrow>
               (let n = counts m pos + 1
                in m\<lparr>voxels := (voxels m)(pos \<mapsto> v\<lparr>colour := averageStep (colour v) c n\<rparr>),
                     counts := (counts m)(pos := n)\<rparr>)))"

text \<open>
  Modelled from the spec: the 26 offsets of the absent \<open>VoxelMesh\<close>, the unit cube minus the
  zero vector.
\<close>

definition OFFSETS :: "int Vector3 list" where
  "OFFSETS = [Vector3 x y z. x \<leftarrow> [-1, 0, 1], y \<leftarrow> [-1, 0, 1], z \<leftarrow> [-1, 0, 1],
                x \<noteq> 0 \<or> y \<noteq> 0 \<or> z \<noteq> 0]"

text \<open>
  Modelled from the spec: the key directions of the absent \<open>VoxelMesh\<close>, whose adjacency a
  neighbour computation evaluates. The test \<open>Voxel neighbours\<close> fixes that a face
  relationship (\<open>(2,2,3)\<close> towards \<open>(-1,0,0)\<close>) "is never tested" while edge and corner
  relationships are, so the key directions are the 20 edge and corner offsets.
\<close>

definition NEIGHBOURS :: "int Vector3 list" where
  "NEIGHBOURS = [
     Vector3 1 1 (-1), Vector3 0 1 (-1), Vector3 (-1) 1 (-1), Vector3 1 0 (-1),
     Vector3 (-1) 0 (-1), Vector3 1 (-1) (-1), Vector3 0 (-1) (-1), Vector3 (-1) (-1) (-1),
     Vector3 1 1 0, Vector3 (-1) 1 0, Vector3 1 (-1) 0, Vector3 (-1) (-1) 0,
     Vector3 1 1 1, Vector3 0 1 1, Vector3 (-1) 1 1, Vector3 1 0 1,
     Vector3 (-1) 0 1, Vector3 1 (-1) 1, Vector3 0 (-1) 1, Vector3 (-1) (-1) 1]"

text \<open>
  Modelled from the spec: the adjacency relationships one neighbour computation of the absent
  \<open>VoxelMesh\<close> registers, when ambient occlusion is enabled. For each key direction the
  occupancy of \<open>origin + offset\<close> is tested via \<open>isVoxelAt\<close>, and an occupied cell is
  registered as adjacent to the origin via the offset. A voxel at the origin is registered
  as adjacent to each cell \<open>origin + offset\<close> via the opposite direction: the test
  \<open>Voxel neighbours\<close> expects \<open>hasNeighbour((2,3,3), (-1,-1,0))\<close> to hold after the
  evaluation at the only voxel \<open>(1,2,3)\<close>.
\<close>

definition evaluateNeighbours ::
  "VoxelMesh \<Rightarrow> int Vector3 \<Rightarrow> (int Vector3 \<times> int Vector3) list" where
  "evaluateNeighbours m origin =
     (if enableAmbientOcclusion (voxelMeshParams m) then
        [(origin, off). off \<leftarrow> NEIGHBOURS, isVoxelAt m (Vector3_add origin off)]
        @ (if isVoxelAt m origin
           then [(Vector3_add origin off, Vector3_negate off). off \<leftarrow> NEIGHBOURS]
           else [])
      else [])"

text \<open>
  Modelled from the spec: the absent \<open>VoxelMesh.getNeighbours\<close>, computed on demand per call:
  it registers what the evaluation at \<open>pos\<close> produces and reports the occupied offsets and
  the count of occupied key directions.
\<close>

definition getNeighbours :: "VoxelMesh \<Rightarrow> int Vector3 \<Rightarrow> VoxelMesh \<times> NeighbourInfo" where
  "getNeighbours m pos =
     (m\<lparr>neighbourMap := neighbourMap m \<union> set (evaluateNeighbours m pos)\<rparr>,
      \<lparr> occupied = [off \<leftarrow> OFFSETS. isVoxelAt m (Vector3_add pos off)],
        keyDirections = length [off \<leftarrow> NEIGHBOURS. isVoxelAt m (Vector3_add pos off)] \<rparr>)"

text \<open>
  Modelled from the spec: the absent \<open>VoxelMesh.hasNeighbour\<close>, true only for a relationship
  that a neighbour computation registered ("not a pure existence+offset check"). The spec
  also asks for a voxel at \<open>pos\<close> itself; the test \<open>Voxel neighbours\<close> expects the answer
  true at \<open>(2,3,3)\<close>, \<open>(0,1,3)\<close>, \<open>(2,1,4)\<close> and \<open>(0,2,4)\<close>, none of which holds a voxel,
  so no such condition is part of the model.
\<close>

definition hasNeighbour :: "VoxelMesh \<Rightarrow> int Vector3 \<Rightarrow> int Vector3 \<Rightarrow> bool" where
  "hasNeighbour m pos direction = ((pos, direction) \<in> neighbourMap m)"

text \<open>Sequences of calls on a voxel mesh.\<close>

datatype VoxelMeshOp = Op_addVoxel "int Vector3" RGBA | Op_getNeighbours "int Vector3"

fun VoxelMesh_step :: "VoxelMesh \<Rightarrow> VoxelMeshOp \<Rightarrow> VoxelMesh" where
  "VoxelMesh_step m (Op_addVoxel pos c) = addVoxel m pos c"
| "VoxelMesh_step m (Op_getNeighbours pos) = fst (getNeighbours m pos)"

fun VoxelMesh_run :: "VoxelMesh \<Rightarrow> VoxelMeshOp list \<Rightarrow> VoxelMesh" where
  "VoxelMesh_run m [] = m"
| "VoxelMesh_run m (op # ops) = VoxelMesh_run (VoxelMesh_step m op) ops"

text \<open>
  The relationships that the \<open>getNeighbours\<close> evaluations of a sequence of calls produce,
  each evaluated on the mesh as it is when the call is made.
\<close>

fun produced :: "VoxelMesh \<Rightarrow> VoxelMeshOp list \<Rightarrow> (int Vector3 \<times> int Vector3) list" where
  "produced m [] = []"
| "produced m (Op_addVoxel pos c # ops) = produced (addVoxel m pos c) ops"
| "produced m (Op_getNeighbours pos # ops) =
     evaluateNeighbours m pos @ produced (fst (getNeighbours m pos)) ops"

text \<open>
  Every registered relationship points at an occupied cell along a key direction, and only a
  mesh with ambient occlusion registers any.
\<close>

definition cache_sound :: "VoxelMesh \<Rightarrow> bool" where
  "cache_sound m = (\<forall>(q, d) \<in> neighbourMap m.
      isVoxelAt m (Vector3_add q d) \<and> d \<in> set NEIGHBOURS
      \<and> enableAmbientOcclusion (voxelMeshParams m))"

section \<open>Concrete inputs\<close>

text \<open>The external alpha-channel probe, fixed to an arbitrary answer.\<close>

definition uac_never :: "string \<Rightarrow> string \<Rightarrow> bool" where
  "uac_never path alphaPath = False"

definition example_solid :: SolidMaterial where
  "example_solid =
     \<lparr> solid_colour = RGBA 1 0 0 1, solid_needsAttention = False, solid_canBeTextured = True \<rparr>"

definition example_textured :: TexturedMaterial where
  "example_textured = \<lparr>
     tex_path = ''stone.png'',
     tex_alphaPath = None,
     tex_interpolation = interp_nearest,
     tex_extension = ext_repeat,
     tex_alphaFactor = 1,
     tex_canBeTextured = True,
     tex_needsAttention = False \<rparr>"

definition example_mesh :: RenderMeshParams where
  "example_mesh = \<lparr>
     mesh_buffers = [\<lparr> in_material = Solid example_solid,
                       in_buffer = [(''position'', [0, 0, 0])],
                       in_numElements = 3,
                       in_materialName = ''stone'' \<rparr>],
     mesh_dimensions = Vector3 1 1 1 \<rparr>"

definition example_first_chunk :: RenderNextVoxelMeshChunkParams where
  "example_first_chunk = \<lparr>
     voxel_buffer = [(''position'', [0, 0, 0])],
     voxel_dimensions = Vector3 2 3 4,
     voxel_voxelSize = 1 / 2,
     voxel_moreVoxelsToBuffer = True,
     voxel_isFirstChunk = True \<rparr>"

definition example_next_chunk :: RenderNextVoxelMeshChunkParams where
  "example_next_chunk = \<lparr>
     voxel_buffer = [(''position'', [1, 0, 0])],
     voxel_dimensions = Vector3 2 3 4,
     voxel_voxelSize = 1 / 2,
     voxel_moreVoxelsToBuffer = False,
     voxel_isFirstChunk = False \<rparr>"

definition example_next_block_chunk :: RenderNextBlockMeshChunkParams where
  "example_next_block_chunk = \<lparr>
     block_buffer = [(''position'', [1, 0, 0])],
     block_atlasTexturePath = ''atlas.png'',
     block_atlasSize = 16,
     block_isFirstChunk = False \<rparr>"

text \<open>The renderer after a triangle mesh has been loaded.\<close>

definition example_loaded :: Renderer where
  "example_loaded = useMesh uac_never Renderer_new example_mesh"

text \<open>The colours and the mesh of the tests.\<close>

definition RGBAColours_WHITE :: RGBA where "RGBAColours_WHITE = RGBA 1 1 1 1"

definition RGBAColours_RED :: RGBA where "RGBAColours_RED = RGBA 1 0 0 1"

definition RGBAColours_BLUE :: RGBA where "RGBAColours_BLUE = RGBA 0 0 1 1"

definition test_params :: "TVoxelOverlapRule \<Rightarrow> bool \<Rightarrow> VoxelMeshParams" where
  "test_params rule ao = \<lparr> voxelOverlapRule = rule, enableAmbientOcclusion = ao \<rparr>"

definition test_mesh :: VoxelMesh where
  "test_mesh =
     addVoxel (VoxelMesh_new (test_params overlap_first True)) (Vector3 1 2 3) RGBAColours_WHITE"

definition test_ops :: "VoxelMeshOp list" where
  "test_ops = [Op_addVoxel (Vector3 1 2 3) RGBAColours_WHITE, Op_getNeighbours (Vector3 1 2 3)]"

section \<open>Properties of the renderer\<close>

lemmas toggle_defs = setLightingAvailable_def toggleIsGridEnabled_def toggleIsAxesEnabled_def
  toggleIsNightVisionEnabled_def toggleIsWireframeEnabled_def toggleIsNormalsEnabled_def
  toggleIsDevDebugEnabled_def toggleComponent_def

lemmas op_defs = toggle_defs setModelToUse_def clearMesh_def recreateMaterialBuffer_def
  updateMeshMaterialTexture_def useMesh_def useVoxelMeshChunk_def useBlockMeshChunk_def Let_def

subsection \<open>Invariants of every sequence of calls\<close>

lemma step_stage_ok:
  "stage_ok r \<Longrightarrow> Renderer_step uac r op = Inr r' \<Longrightarrow> stage_ok r'"
  by (cases op) (auto simp: stage_ok_def op_defs split: option.splits Material.splits if_splits)

lemma run_stage_ok:
  "stage_ok r \<Longrightarrow> Renderer_run uac r ops = Inr r' \<Longrightarrow> stage_ok r'"
proof (induction ops arbitrary: r)
  case Nil
  then show ?case by simp
next
  case (Cons op ops)
  then show ?case
    by (auto split: sum.splits dest: step_stage_ok)
qed

lemma step_bound:
  "modelsAvailable r \<le> 3 \<Longrightarrow> Renderer_step uac r op = Inr r' \<Longrightarrow> modelsAvailable r' \<le> 3"
  by (cases op) (auto simp: op_defs split: option.splits Material.splits if_splits)

lemma run_bound:
  "modelsAvailable r \<le> 3 \<Longrightarrow> Renderer_run uac r ops = Inr r' \<Longrightarrow> modelsAvailable r' \<le> 3"
proof (induction ops arbitrary: r)
  case Nil
  then show ?case by simp
next
  case (Cons op ops)
  from Cons.prems(2) obtain r1 where
    s: "Renderer_step uac r op = Inr r1" and t: "Renderer_run uac r1 ops = Inr r'"
    by (auto split: sum.splits)
  from Cons.prems(1) s have "modelsAvailable r1 \<le> 3" by (rule step_bound)
  then show ?case using t by (rule Cons.IH)
qed

lemma step_watermark:
  assumes "Renderer_step uac r op = Inr r'"
  shows "modelsAvailable r' =
           (case op of
              Op_clearMesh \<Rightarrow> 0
            | Op_useMesh p \<Rightarrow> 1
            | Op_useVoxelMeshChunk p \<Rightarrow> if voxel_isFirstChunk p then 2 else modelsAvailable r
            | Op_useBlockMeshChunk p \<Rightarrow> if block_isFirstChunk p then 3 else modelsAvailable r
            | _ \<Rightarrow> modelsAvailable r)"
  using assms
  by (cases op) (auto simp: op_defs split: option.splits Material.splits if_splits)

lemma useMesh_entry_names_ok: "names_ok m \<Longrightarrow> names_ok (useMesh_entry uac m e)"
  by (auto simp: names_ok_def useMesh_entry_def split: Material.splits)

lemma foldl_useMesh_entry_names_ok: "names_ok m \<Longrightarrow> names_ok (foldl (useMesh_entry uac) m es)"
  by (induction es arbitrary: m) (simp_all add: useMesh_entry_names_ok)

lemma step_names_ok:
  "names_ok (materialBuffers r) \<Longrightarrow> Renderer_step uac r op = Inr r'
     \<Longrightarrow> names_ok (materialBuffers r')"
proof (cases op)
  case (Op_useMesh p)
  assume "Renderer_step uac r op = Inr r'"
  with Op_useMesh have "materialBuffers r' = foldl (useMesh_entry uac) Map.empty (mesh_buffers p)"
    by (auto simp: useMesh_def setModelToUse_def Let_def)
  moreover have "names_ok (Map.empty :: string \<rightharpoonup> MaterialBuffer)"
    by (simp add: names_ok_def)
  ultimately show "names_ok (materialBuffers r')"
    by (simp add: foldl_useMesh_entry_names_ok)
qed (auto simp: names_ok_def toggle_defs setModelToUse_def clearMesh_def
        recreateMaterialBuffer_def updateMeshMaterialTexture_def useVoxelMeshChunk_def
        useBlockMeshChunk_def Let_def split: option.splits Material.splits if_splits)

lemma run_names_ok:
  "names_ok (materialBuffers r) \<Longrightarrow> Renderer_run uac r ops = Inr r'
     \<Longrightarrow> names_ok (materialBuffers r')"
proof (induction ops arbitrary: r)
  case Nil
  then show ?case by simp
next
  case (Cons op ops)
  then show ?case
    by (auto split: sum.splits dest: step_names_ok)
qed

lemma step_voxelBuffer_None:
  "voxelBuffer r = None \<Longrightarrow> \<not> isFirstVoxelChunkOp op \<Longrightarrow> Renderer_step uac r op = Inr r'
     \<Longrightarrow> voxelBuffer r' = None"
  by (cases op)
     (auto simp: op_defs isFirstVoxelChunkOp_def push_opt_def
           split: option.splits Material.splits if_splits)

lemma step_blockBuffer_None:
  "blockBuffer r = None \<Longrightarrow> \<not> isFirstBlockChunkOp op \<Longrightarrow> Renderer_step uac r op = Inr r'
     \<Longrightarrow> blockBuffer r' = None"
  by (cases op)
     (auto simp: op_defs isFirstBlockChunkOp_def push_opt_def
           split: option.splits Material.splits if_splits)

lemma run_voxelBuffer_None:
  "voxelBuffer r = None \<Longrightarrow> \<forall>op \<in> set ops. \<not> isFirstVoxelChunkOp op
     \<Longrightarrow> Renderer_run uac r ops = Inr r' \<Longrightarrow> voxelBuffer r' = None"
proof (induction ops arbitrary: r)
  case Nil
  then show ?case by simp
next
  case (Cons op ops)
  then show ?case
    by (auto split: sum.splits dest: step_voxelBuffer_None)
qed

lemma run_blockBuffer_None:
  "blockBuffer r = None \<Longrightarrow> \<forall>op \<in> set ops. \<not> isFirstBlockChunkOp op
     \<Longrightarrow> Renderer_run uac r ops = Inr r' \<Longrightarrow> blockBuffer r' = None"
proof (induction ops arbitrary: r)
  case Nil
  then show ?case by simp
next
  case (Cons op ops)
  then show ?case
    by (auto split: sum.splits dest: step_blockBuffer_None)
qed

subsection \<open>Single calls\<close>

lemma useVoxelMeshChunk_first:
  "voxel_isFirstChunk p \<Longrightarrow>
     voxelBuffer (useVoxelMeshChunk r p) = Some [createBufferInfoFromArrays (voxel_buffer p)]
     \<and> modelsAvailable (useVoxelMeshChunk r p) = 2
     \<and> meshToUse (useVoxelMeshChunk r p) = MeshType_VoxelMesh"
  by (simp add: useVoxelMeshChunk_def setModelToUse_def push_opt_def Let_def)

lemma useVoxelMeshChunk_next:
  "\<not> voxel_isFirstChunk p \<Longrightarrow>
     useVoxelMeshChunk r p = r\<lparr>allVoxelChunks := \<not> voxel_moreVoxelsToBuffer p,
        voxelBuffer := push_opt (voxelBuffer r) (createBufferInfoFromArrays (voxel_buffer p)),
        voxelSize := voxel_voxelSize p\<rparr>"
  by (simp add: useVoxelMeshChunk_def Let_def)

lemma useBlockMeshChunk_next:
  "\<not> block_isFirstChunk p \<Longrightarrow>
     useBlockMeshChunk r p =
       r\<lparr>blockBuffer := push_opt (blockBuffer r) (createBufferInfoFromArrays (block_buffer p))\<rparr>"
  by (simp add: useBlockMeshChunk_def Let_def)

lemma foldl_next_chunks:
  "\<forall>c \<in> set cs. \<not> voxel_isFirstChunk c \<Longrightarrow> voxelBuffer r = Some bs \<Longrightarrow>
     voxelBuffer (foldl useVoxelMeshChunk r cs)
       = Some (bs @ map (\<lambda>c. createBufferInfoFromArrays (voxel_buffer c)) cs)"
  by (induction cs arbitrary: r bs) (simp_all add: useVoxelMeshChunk_next push_opt_def)

lemma js_rem_2: "js_rem d 2 = 0 \<longleftrightarrow> even d"
  by (auto simp: js_rem_def sgn_if even_iff_mod_2_eq_zero)

lemma update_no_match:
  assumes "\<forall>k e. materialBuffers r k = Some e \<longrightarrow> mb_materialName e \<noteq> n"
  shows "updateMeshMaterialTexture uac r n t = r"
proof -
  have "(\<lambda>k. map_option
          (\<lambda>buffer. if mb_materialName buffer = n
                     then buffer\<lparr>mb_material := RenderTextured (texturedRenderMaterial uac t)\<rparr>
                     else buffer)
          (materialBuffers r k)) = materialBuffers r"
  proof
    fix k
    show "map_option
          (\<lambda>buffer. if mb_materialName buffer = n
                     then buffer\<lparr>mb_material := RenderTextured (texturedRenderMaterial uac t)\<rparr>
                     else buffer)
          (materialBuffers r k) = materialBuffers r k"
      using assms by (cases "materialBuffers r k") auto
  qed
  then show ?thesis
    by (simp add: updateMeshMaterialTexture_def)
qed

subsection \<open>The loaded example\<close>

lemma example_loaded_fields:
  "modelsAvailable example_loaded = 1"
  "meshToUse example_loaded = MeshType_TriangleMesh"
  "voxelBuffer example_loaded = None"
  "blockBuffer example_loaded = None"
  by (simp_all add: example_loaded_def useMesh_def setModelToUse_def Let_def Renderer_new_def)

lemma example_loaded_materials:
  "materialBuffers example_loaded =
     [''stone'' \<mapsto> \<lparr> mb_material = RenderSolid example_solid,
                      mb_buffer = createBufferInfoFromArrays [(''position'', [0, 0, 0])],
                      mb_numElements = 3,
                      mb_materialName = ''stone'' \<rparr>]"
  by (simp add: example_loaded_def useMesh_def setModelToUse_def Let_def example_mesh_def
        useMesh_entry_def)

lemma example_loaded_eq: "useMesh uac_never Renderer_new example_mesh = example_loaded"
  by (simp add: example_loaded_def)

subsection \<open>The watermark (C2)\<close>

text \<open>
  C2, as the code has it. After any sequence of calls on a new renderer, one more call sets
  the models-available watermark as follows: \<open>clearMesh\<close> to 0 (\<open>None\<close>), \<open>useMesh\<close> to 1
  (\<open>TriangleMesh\<close>), a first voxel chunk to 2 (\<open>VoxelMesh\<close>), a first block chunk to 3
  (\<open>BlockMesh\<close>); every other call leaves it unchanged. So the watermark does not decrease
  from one call to the next except by \<open>clearMesh\<close>, by \<open>useMesh\<close> (which lowers a watermark
  of \<open>VoxelMesh\<close> or \<open>BlockMesh\<close> to \<open>TriangleMesh\<close>) and by a first voxel chunk (which
  lowers \<open>BlockMesh\<close> to \<open>VoxelMesh\<close>).
\<close>

theorem watermark_step:
  assumes "Renderer_run uac Renderer_new ops = Inr r" and "Renderer_step uac r op = Inr r'"
  shows "modelsAvailable r' =
           (case op of
              Op_clearMesh \<Rightarrow> 0
            | Op_useMesh p \<Rightarrow> 1
            | Op_useVoxelMeshChunk p \<Rightarrow> if voxel_isFirstChunk p then 2 else modelsAvailable r
            | Op_useBlockMeshChunk p \<Rightarrow> if block_isFirstChunk p then 3 else modelsAvailable r
            | _ \<Rightarrow> modelsAvailable r)
         \<and> (modelsAvailable r \<le> modelsAvailable r'
            \<or> op = Op_clearMesh
            \<or> (\<exists>p. op = Op_useMesh p)
            \<or> (\<exists>p. op = Op_useVoxelMeshChunk p \<and> voxel_isFirstChunk p))"
proof -
  have "modelsAvailable Renderer_new \<le> 3" by (simp add: Renderer_new_def)
  then have bound: "modelsAvailable r \<le> 3"
    using assms(1) by (rule run_bound)
  have eq: "modelsAvailable r' =
           (case op of
              Op_clearMesh \<Rightarrow> 0
            | Op_useMesh p \<Rightarrow> 1
            | Op_useVoxelMeshChunk p \<Rightarrow> if voxel_isFirstChunk p then 2 else modelsAvailable r
            | Op_useBlockMeshChunk p \<Rightarrow> if block_isFirstChunk p then 3 else modelsAvailable r
            | _ \<Rightarrow> modelsAvailable r)"
    using assms(2) by (rule step_watermark)
  from eq bound show ?thesis
    by (cases op) (simp_all split: if_splits)
qed

text \<open>After \<open>useMesh\<close> the watermark is 1; a first voxel chunk raises it to 2.\<close>

theorem watermark_step_witness:
  "Renderer_run uac_never Renderer_new [Op_useMesh example_mesh] = Inr example_loaded
   \<and> Renderer_step uac_never example_loaded (Op_useVoxelMeshChunk example_first_chunk)
       = Inr (useVoxelMeshChunk example_loaded example_first_chunk)
   \<and> modelsAvailable example_loaded = 1
   \<and> modelsAvailable (useVoxelMeshChunk example_loaded example_first_chunk) = 2"
  using watermark_step [of uac_never "[Op_useMesh example_mesh]" example_loaded
      "Op_useVoxelMeshChunk example_first_chunk"
      "useVoxelMeshChunk example_loaded example_first_chunk"]
  by (simp add: example_loaded_eq example_loaded_fields example_first_chunk_def)

text \<open>
  The claim as stated fails: with the watermark at \<open>VoxelMesh\<close> (2) after a first voxel
  chunk, \<open>useMesh\<close> lowers it to \<open>TriangleMesh\<close> (1).
\<close>

theorem watermark_useMesh_counterexample:
  "modelsAvailable (useVoxelMeshChunk Renderer_new example_first_chunk) = 2
   \<and> modelsAvailable
        (useMesh uac_never (useVoxelMeshChunk Renderer_new example_first_chunk) example_mesh) = 1"
  by (simp add: useVoxelMeshChunk_def useMesh_def setModelToUse_def Let_def
        example_first_chunk_def)

subsection \<open>Selecting the stage to display (C3)\<close>

text \<open>
  C3. In every renderer state \<open>setModelToUse s\<close> returns the state unchanged (no error) when
  \<open>s\<close> exceeds the watermark, and sets the active stage to \<open>s\<close> when \<open>s\<close> is at most the
  watermark. Consequently, after every sequence of calls on a new renderer the active stage
  does not exceed the watermark, before and after a further \<open>setModelToUse\<close>.
\<close>

theorem setModelToUse_watermark:
  "(modelsAvailable r < MeshType_value s \<longrightarrow> setModelToUse r s = r)
   \<and> (MeshType_value s \<le> modelsAvailable r \<longrightarrow> setModelToUse r s = r\<lparr>meshToUse := s\<rparr>)
   \<and> (Renderer_run uac Renderer_new ops = Inr r' \<longrightarrow>
        MeshType_value (meshToUse r') \<le> modelsAvailable r'
        \<and> MeshType_value (meshToUse (setModelToUse r' s)) \<le> modelsAvailable (setModelToUse r' s))"
proof -
  have "stage_ok Renderer_new" by (simp add: stage_ok_def Renderer_new_def)
  then have "Renderer_run uac Renderer_new ops = Inr r' \<Longrightarrow> stage_ok r'"
    by (rule run_stage_ok)
  then show ?thesis
    by (auto simp: setModelToUse_def stage_ok_def)
qed

text \<open>
  With only the triangle mesh loaded, a request for \<open>BlockMesh\<close> is ignored and a request
  for \<open>None\<close> is honoured.
\<close>

theorem setModelToUse_watermark_witness:
  "modelsAvailable example_loaded < MeshType_value MeshType_BlockMesh
   \<and> setModelToUse example_loaded MeshType_BlockMesh = example_loaded
   \<and> MeshType_value MeshType_None \<le> modelsAvailable example_loaded
   \<and> meshToUse example_loaded = MeshType_TriangleMesh
   \<and> setModelToUse example_loaded MeshType_None = example_loaded\<lparr>meshToUse := MeshType_None\<rparr>
   \<and> Renderer_run uac_never Renderer_new [Op_useMesh example_mesh] = Inr example_loaded
   \<and> MeshType_value (meshToUse example_loaded) \<le> modelsAvailable example_loaded"
  using setModelToUse_watermark [of example_loaded MeshType_BlockMesh uac_never
          "[Op_useMesh example_mesh]" example_loaded]
        setModelToUse_watermark [of example_loaded MeshType_None uac_never
          "[Op_useMesh example_mesh]" example_loaded]
  by (simp add: example_loaded_eq example_loaded_fields)

subsection \<open>Voxel chunks (C4, C7, C10)\<close>

text \<open>
  C4, as the code has it. A call of \<open>useVoxelMeshChunk\<close> with \<open>isFirstChunk = true\<close> resets
  the voxel buffer list to exactly the new chunk, sets the watermark to \<open>VoxelMesh\<close> and makes
  \<open>VoxelMesh\<close> the active stage. A call with \<open>isFirstChunk = false\<close> leaves watermark and
  active stage unchanged and appends the chunk behind the prior chunks when the list has been
  initialised; while the list is still undefined it stays undefined. Hence a first chunk
  followed by any number of later chunks accumulates all of them in order.
\<close>

theorem useVoxelMeshChunk_buffers:
  "(voxel_isFirstChunk p \<longrightarrow>
       voxelBuffer (useVoxelMeshChunk r p) = Some [createBufferInfoFromArrays (voxel_buffer p)]
     \<and> modelsAvailable (useVoxelMeshChunk r p) = 2
     \<and> meshToUse (useVoxelMeshChunk r p) = MeshType_VoxelMesh)
   \<and> (\<not> voxel_isFirstChunk p \<longrightarrow>
       voxelBuffer (useVoxelMeshChunk r p)
         = (case voxelBuffer r of
              None \<Rightarrow> None
            | Some bs \<Rightarrow> Some (bs @ [createBufferInfoFromArrays (voxel_buffer p)]))
     \<and> modelsAvailable (useVoxelMeshChunk r p) = modelsAvailable r
     \<and> meshToUse (useVoxelMeshChunk r p) = meshToUse r)
   \<and> (voxel_isFirstChunk p \<and> (\<forall>c \<in> set cs. \<not> voxel_isFirstChunk c) \<longrightarrow>
       voxelBuffer (foldl useVoxelMeshChunk r (p # cs))
         = Some (map (\<lambda>c. createBufferInfoFromArrays (voxel_buffer c)) (p # cs)))"
  using useVoxelMeshChunk_first [of p r] foldl_next_chunks [of cs "useVoxelMeshChunk r p"]
  by (simp add: useVoxelMeshChunk_next push_opt_def)

text \<open>A first chunk, then later chunks, on a new renderer.\<close>

theorem useVoxelMeshChunk_buffers_witness:
  "voxel_isFirstChunk example_first_chunk
   \<and> \<not> voxel_isFirstChunk example_next_chunk
   \<and> voxelBuffer (useVoxelMeshChunk Renderer_new example_first_chunk)
       = Some [createBufferInfoFromArrays [(''position'', [0, 0, 0])]]
   \<and> modelsAvailable (useVoxelMeshChunk Renderer_new example_first_chunk) = 2
   \<and> voxelBuffer (useVoxelMeshChunk (useVoxelMeshChunk Renderer_new example_first_chunk)
                     example_next_chunk)
       = Some [createBufferInfoFromArrays [(''position'', [0, 0, 0])],
               createBufferInfoFromArrays [(''position'', [1, 0, 0])]]
   \<and> voxelBuffer (foldl useVoxelMeshChunk Renderer_new
                     [example_first_chunk, example_next_chunk, example_next_chunk])
       = Some [createBufferInfoFromArrays [(''position'', [0, 0, 0])],
               createBufferInfoFromArrays [(''position'', [1, 0, 0])],
               createBufferInfoFromArrays [(''position'', [1, 0, 0])]]"
  using useVoxelMeshChunk_buffers [of example_first_chunk Renderer_new
          "[example_next_chunk, example_next_chunk]"]
        useVoxelMeshChunk_buffers [of example_next_chunk
          "useVoxelMeshChunk Renderer_new example_first_chunk" "[]"]
  by (simp add: example_first_chunk_def example_next_chunk_def)

text \<open>
  The claim as stated fails: on a new renderer a chunk with \<open>isFirstChunk = false\<close> is not
  appended, the list stays undefined.
\<close>

theorem useVoxelMeshChunk_uninitialised_counterexample:
  "\<not> voxel_isFirstChunk example_next_chunk
   \<and> voxelBuffer (useVoxelMeshChunk Renderer_new example_next_chunk) = None"
  by (simp add: useVoxelMeshChunk_def example_next_chunk_def Renderer_new_def push_opt_def Let_def)

text \<open>
  C7, as the code has it. A first voxel chunk with dimensions \<open>D\<close> sets the grid offset to 0 on
  each axis whose dimension component is even and to \<open>-0.5\<close> on each axis whose component is
  odd, and builds the three voxel grid buffers from \<open>(D + 1)\<close> scaled by the voxel size, with
  the voxel size as spacing.
\<close>

theorem useVoxelMeshChunk_grid:
  "voxel_isFirstChunk p \<Longrightarrow>
     gridOffset (useVoxelMeshChunk r p)
       = Vector3 (if even (vx (voxel_dimensions p)) then 0 else - 0.5)
                 (if even (vy (voxel_dimensions p)) then 0 else - 0.5)
                 (if even (vz (voxel_dimensions p)) then 0 else - 0.5)
   \<and> gridBuffers_x (useVoxelMeshChunk r p) MeshType_VoxelMesh
       = Some (gridX (Vector3 ((of_int (vx (voxel_dimensions p)) + 1) * voxel_voxelSize p)
                              ((of_int (vy (voxel_dimensions p)) + 1) * voxel_voxelSize p)
                              ((of_int (vz (voxel_dimensions p)) + 1) * voxel_voxelSize p))
                     (Some (voxel_voxelSize p)))
   \<and> gridBuffers_y (useVoxelMeshChunk r p) MeshType_VoxelMesh
       = Some (gridY (Vector3 ((of_int (vx (voxel_dimensions p)) + 1) * voxel_voxelSize p)
                              ((of_int (vy (voxel_dimensions p)) + 1) * voxel_voxelSize p)
                              ((of_int (vz (voxel_dimensions p)) + 1) * voxel_voxelSize p))
                     (Some (voxel_voxelSize p)))
   \<and> gridBuffers_z (useVoxelMeshChunk r p) MeshType_VoxelMesh
       = Some (gridZ (Vector3 ((of_int (vx (voxel_dimensions p)) + 1) * voxel_voxelSize p)
                              ((of_int (vy (voxel_dimensions p)) + 1) * voxel_voxelSize p)
                              ((of_int (vz (voxel_dimensions p)) + 1) * voxel_voxelSize p))
                     (Some (voxel_voxelSize p)))"
  by (simp add: useVoxelMeshChunk_def setModelToUse_def Let_def gridOffsetComponent_def js_rem_2
        Vector3_of_int_def Vector3_addScalar_def Vector3_mulScalar_def)

text \<open>Dimensions \<open>(2, 3, 4)\<close> with voxel size \<open>1/2\<close>.\<close>

theorem useVoxelMeshChunk_grid_witness:
  "voxel_isFirstChunk example_first_chunk
   \<and> gridOffset (useVoxelMeshChunk Renderer_new example_first_chunk) = Vector3 0 (- 0.5) 0
   \<and> gridBuffers_x (useVoxelMeshChunk Renderer_new example_first_chunk) MeshType_VoxelMesh
       = Some (gridX (Vector3 (3 / 2) 2 (5 / 2)) (Some (1 / 2)))"
  using useVoxelMeshChunk_grid [of example_first_chunk Renderer_new]
  by (simp add: example_first_chunk_def)

text \<open>
  The claim as stated fails: for dimensions \<open>(2, 3, 4)\<close> the offset is 0 on the even axes and
  \<open>-0.5\<close> on the odd axis, not the other way round.
\<close>

theorem gridOffset_even_counterexample:
  "voxel_isFirstChunk example_first_chunk
   \<and> voxel_dimensions example_first_chunk = Vector3 2 3 4
   \<and> gridOffset (useVoxelMeshChunk Renderer_new example_first_chunk) = Vector3 0 (- 0.5) 0"
  by (simp add: useVoxelMeshChunk_def setModelToUse_def Let_def gridOffsetComponent_def js_rem_def
        example_first_chunk_def)

text \<open>
  C10. After any sequence of calls on a new renderer that contains no first voxel chunk, the
  voxel buffer list is still undefined and a call of \<open>useVoxelMeshChunk\<close> with
  \<open>isFirstChunk = false\<close> does not fail and changes nothing but the voxel size and the
  all-chunks-received flag: no buffer is appended, watermark and active stage stay. Likewise,
  with no first block chunk so far, \<open>useBlockMeshChunk\<close> with \<open>isFirstChunk = false\<close>
  returns the state unchanged.
\<close>

theorem chunk_before_first:
  assumes "Renderer_run uac Renderer_new ops = Inr r"
  shows "((\<forall>op \<in> set ops. \<not> isFirstVoxelChunkOp op) \<and> \<not> voxel_isFirstChunk p \<longrightarrow>
            voxelBuffer r = None
          \<and> Renderer_step uac r (Op_useVoxelMeshChunk p)
              = Inr (r\<lparr>allVoxelChunks := \<not> voxel_moreVoxelsToBuffer p,
                       voxelSize := voxel_voxelSize p\<rparr>))
       \<and> ((\<forall>op \<in> set ops. \<not> isFirstBlockChunkOp op) \<and> \<not> block_isFirstChunk q \<longrightarrow>
            blockBuffer r = None
          \<and> Renderer_step uac r (Op_useBlockMeshChunk q) = Inr r)"
proof -
  have v: "voxelBuffer Renderer_new = None" and b: "blockBuffer Renderer_new = None"
    by (simp_all add: Renderer_new_def)
  have "voxelBuffer r = None" if "\<forall>op \<in> set ops. \<not> isFirstVoxelChunkOp op"
    using v that assms by (rule run_voxelBuffer_None)
  moreover have "blockBuffer r = None" if "\<forall>op \<in> set ops. \<not> isFirstBlockChunkOp op"
    using b that assms by (rule run_blockBuffer_None)
  ultimately show ?thesis
    by (auto simp: useVoxelMeshChunk_next useBlockMeshChunk_next push_opt_def)
qed

text \<open>Later chunks arriving when only a triangle mesh has been loaded.\<close>

theorem chunk_before_first_witness:
  "Renderer_run uac_never Renderer_new [Op_useMesh example_mesh] = Inr example_loaded
   \<and> \<not> isFirstVoxelChunkOp (Op_useMesh example_mesh)
   \<and> \<not> isFirstBlockChunkOp (Op_useMesh example_mesh)
   \<and> \<not> voxel_isFirstChunk example_next_chunk
   \<and> \<not> block_isFirstChunk example_next_block_chunk
   \<and> voxelBuffer (useVoxelMeshChunk example_loaded example_next_chunk) = None
   \<and> modelsAvailable (useVoxelMeshChunk example_loaded example_next_chunk) = 1
   \<and> meshToUse (useVoxelMeshChunk example_loaded example_next_chunk) = MeshType_TriangleMesh
   \<and> voxelSize (useVoxelMeshChunk example_loaded example_next_chunk) = 1 / 2
   \<and> allVoxelChunks (useVoxelMeshChunk example_loaded example_next_chunk)
   \<and> useBlockMeshChunk example_loaded example_next_block_chunk = example_loaded"
  using chunk_before_first [of uac_never "[Op_useMesh example_mesh]" example_loaded
      example_next_chunk example_next_block_chunk]
  by (simp add: isFirstVoxelChunkOp_def isFirstBlockChunkOp_def example_next_chunk_def
        example_next_block_chunk_def example_loaded_eq example_loaded_fields)

subsection \<open>Clearing (C8)\<close>

text \<open>
  C8, as the code has it. In every renderer state \<open>clearMesh\<close> empties the material buffer
  map, resets the watermark to \<open>None\<close> and the active stage to \<open>None\<close>, and changes no other
  field: the voxel and block chunk buffer lists are kept as they are.
\<close>

theorem clearMesh_effect:
  "clearMesh r = r\<lparr>materialBuffers := Map.empty, modelsAvailable := 0, meshToUse := MeshType_None\<rparr>
   \<and> voxelBuffer (clearMesh r) = voxelBuffer r
   \<and> blockBuffer (clearMesh r) = blockBuffer r"
  by (simp add: clearMesh_def setModelToUse_def Let_def)

text \<open>Clearing the loaded triangle mesh.\<close>

theorem clearMesh_effect_witness:
  "materialBuffers example_loaded ''stone'' \<noteq> None
   \<and> materialBuffers (clearMesh example_loaded) = Map.empty
   \<and> modelsAvailable (clearMesh example_loaded) = 0
   \<and> meshToUse (clearMesh example_loaded) = MeshType_None"
  using clearMesh_effect [of example_loaded]
  by (simp add: example_loaded_materials)

text \<open>
  The claim as stated fails: the voxel chunk streamed before \<open>clearMesh\<close> is still in the
  voxel buffer list afterwards.
\<close>

theorem clearMesh_keeps_chunks_counterexample:
  "voxelBuffer (clearMesh (useVoxelMeshChunk Renderer_new example_first_chunk))
     = Some [createBufferInfoFromArrays [(''position'', [0, 0, 0])]]"
  by (simp add: clearMesh_def useVoxelMeshChunk_def setModelToUse_def Let_def push_opt_def
        example_first_chunk_def)

subsection \<open>Replacing a material (C9)\<close>

text \<open>
  C9, as the code has it. \<open>recreateMaterialBuffer n m\<close> fails with an assertion when \<open>n\<close> has
  no buffer entry; when \<open>n\<close> has one, it replaces the entry by one with the new material and
  the old geometry buffer and element count. \<open>updateMeshMaterialTexture n t\<close> never fails: it
  replaces the material of every entry named \<open>n\<close>, keeping buffer, element count and name,
  and leaves every other entry as it is; after any sequence of calls on a new renderer, when
  \<open>n\<close> has no entry it returns the state unchanged.
\<close>

theorem material_replacement:
  "(materialBuffers r n = None \<longrightarrow> recreateMaterialBuffer uac r n m = Inl AssertionError)
   \<and> (\<forall>old. materialBuffers r n = Some old \<longrightarrow>
        recreateMaterialBuffer uac r n m
          = Inr (r\<lparr>materialBuffers := (materialBuffers r)(n \<mapsto> \<lparr>
                  mb_material = (case m of
                      Solid sm \<Rightarrow> RenderSolid \<lparr>
                        solid_colour = RGBAUtil_copy (solid_colour sm),
                        solid_needsAttention = solid_needsAttention sm,
                        solid_canBeTextured = solid_canBeTextured sm \<rparr>
                    | Textured tm \<Rightarrow> RenderTextured (texturedRenderMaterial uac tm)),
                  mb_buffer = mb_buffer old,
                  mb_numElements = mb_numElements old,
                  mb_materialName = n \<rparr>)\<rparr>))
   \<and> Renderer_step uac r (Op_updateMeshMaterialTexture n t)
       = Inr (updateMeshMaterialTexture uac r n t)
   \<and> (\<forall>k. materialBuffers (updateMeshMaterialTexture uac r n t) k
          = (case materialBuffers r k of
               None \<Rightarrow> None
             | Some e \<Rightarrow> if mb_materialName e = n
                         then Some \<lparr> mb_material = RenderTextured (texturedRenderMaterial uac t),
                                     mb_buffer = mb_buffer e,
                                     mb_numElements = mb_numElements e,
                                     mb_materialName = mb_materialName e \<rparr>
                         else Some e))
   \<and> (Renderer_run uac Renderer_new ops = Inr r \<and> materialBuffers r n = None \<longrightarrow>
        updateMeshMaterialTexture uac r n t = r)"
proof -
  have 1: "materialBuffers r n = None \<longrightarrow> recreateMaterialBuffer uac r n m = Inl AssertionError"
    by (simp add: recreateMaterialBuffer_def)
  have 2: "\<forall>old. materialBuffers r n = Some old \<longrightarrow>
        recreateMaterialBuffer uac r n m
          = Inr (r\<lparr>materialBuffers := (materialBuffers r)(n \<mapsto> \<lparr>
                  mb_material = (case m of
                      Solid sm \<Rightarrow> RenderSolid \<lparr>
                        solid_colour = RGBAUtil_copy (solid_colour sm),
                        solid_needsAttention = solid_needsAttention sm,
                        solid_canBeTextured = solid_canBeTextured sm \<rparr>
                    | Textured tm \<Rightarrow> RenderTextured (texturedRenderMaterial uac tm)),
                  mb_buffer = mb_buffer old,
                  mb_numElements = mb_numElements old,
                  mb_materialName = n \<rparr>)\<rparr>)"
    by (cases m) (simp_all add: recreateMaterialBuffer_def)
  have 3: "\<forall>k. materialBuffers (updateMeshMaterialTexture uac r n t) k
          = (case materialBuffers r k of
               None \<Rightarrow> None
             | Some e \<Rightarrow> if mb_materialName e = n
                         then Some \<lparr> mb_material = RenderTextured (texturedRenderMaterial uac t),
                                     mb_buffer = mb_buffer e,
                                     mb_numElements = mb_numElements e,
                                     mb_materialName = mb_materialName e \<rparr>
                         else Some e)"
    by (simp add: updateMeshMaterialTexture_def split: option.splits)
  have 4: "updateMeshMaterialTexture uac r n t = r"
    if run: "Renderer_run uac Renderer_new ops = Inr r" and none: "materialBuffers r n = None"
  proof -
    have "names_ok (materialBuffers Renderer_new)"
      by (simp add: names_ok_def Renderer_new_def)
    then have "names_ok (materialBuffers r)"
      using run by (rule run_names_ok)
    with none have "\<forall>k e. materialBuffers r k = Some e \<longrightarrow> mb_materialName e \<noteq> n"
      by (auto simp: names_ok_def)
    then show ?thesis by (rule update_no_match)
  qed
  from 1 2 3 4 show ?thesis by simp
qed

text \<open>
  The loaded mesh has a buffer for \<open>stone\<close> and none for \<open>dirt\<close>: recreating \<open>dirt\<close> fails,
  recreating \<open>stone\<close> keeps its geometry, updating the texture of \<open>dirt\<close> changes nothing.
\<close>

theorem material_replacement_witness:
  "Renderer_run uac_never Renderer_new [Op_useMesh example_mesh] = Inr example_loaded
   \<and> materialBuffers example_loaded ''dirt'' = None
   \<and> recreateMaterialBuffer uac_never example_loaded ''dirt'' (Textured example_textured)
       = Inl AssertionError
   \<and> updateMeshMaterialTexture uac_never example_loaded ''dirt'' example_textured = example_loaded
   \<and> materialBuffers example_loaded ''stone''
       = Some \<lparr> mb_material = RenderSolid example_solid,
                mb_buffer = createBufferInfoFromArrays [(''position'', [0, 0, 0])],
                mb_numElements = 3,
                mb_materialName = ''stone'' \<rparr>
   \<and> recreateMaterialBuffer uac_never example_loaded ''stone'' (Textured example_textured)
       = Inr (example_loaded\<lparr>materialBuffers := (materialBuffers example_loaded)(''stone'' \<mapsto>
                \<lparr> mb_material = RenderTextured (texturedRenderMaterial uac_never example_textured),
                  mb_buffer = createBufferInfoFromArrays [(''position'', [0, 0, 0])],
                  mb_numElements = 3,
                  mb_materialName = ''stone'' \<rparr>)\<rparr>)"
  using material_replacement [of example_loaded "''dirt''" uac_never "Textured example_textured"
          example_textured "[Op_useMesh example_mesh]"]
        material_replacement [of example_loaded "''stone''" uac_never "Textured example_textured"
          example_textured "[Op_useMesh example_mesh]"]
  by (simp add: example_loaded_eq example_loaded_materials)

text \<open>
  The claim as stated fails: on a new renderer, where \<open>stone\<close> has no buffer entry,
  \<open>updateMeshMaterialTexture\<close> does not fail; it returns the state as it was.
\<close>

theorem updateMeshMaterialTexture_unknown_counterexample:
  "materialBuffers Renderer_new ''stone'' = None
   \<and> Renderer_step uac_never Renderer_new (Op_updateMeshMaterialTexture ''stone'' example_textured)
       = Inr Renderer_new"
  by (simp add: updateMeshMaterialTexture_def Renderer_new_def)

section \<open>Properties of the voxel mesh\<close>

subsection \<open>What the operations keep\<close>

lemma isVoxelAt_addVoxel: "isVoxelAt (addVoxel m p c) q \<longleftrightarrow> q = p \<or> isVoxelAt m q"
  by (auto simp: isVoxelAt_def addVoxel_def Let_def split: option.splits TVoxelOverlapRule.splits)

lemma isVoxelAt_getNeighbours: "isVoxelAt (fst (getNeighbours m p)) q = isVoxelAt m q"
  by (simp add: isVoxelAt_def getNeighbours_def)

lemma params_addVoxel: "voxelMeshParams (addVoxel m p c) = voxelMeshParams m"
  by (simp add: addVoxel_def Let_def split: option.splits TVoxelOverlapRule.splits)

lemma params_getNeighbours: "voxelMeshParams (fst (getNeighbours m p)) = voxelMeshParams m"
  by (simp add: getNeighbours_def)

lemma neighbourMap_addVoxel: "neighbourMap (addVoxel m p c) = neighbourMap m"
  by (simp add: addVoxel_def Let_def split: option.splits TVoxelOverlapRule.splits)

lemma neighbourMap_getNeighbours:
  "neighbourMap (fst (getNeighbours m p)) = neighbourMap m \<union> set (evaluateNeighbours m p)"
  by (simp add: getNeighbours_def)

text \<open>Only \<open>getNeighbours\<close> evaluations add to the registered relationships.\<close>

lemma neighbourMap_run:
  "neighbourMap (VoxelMesh_run m ops) = neighbourMap m \<union> set (produced m ops)"
proof (induction m ops rule: produced.induct)
  case (1 m)
  show ?case by simp
next
  case (2 m pos c ops)
  then show ?case by (simp add: neighbourMap_addVoxel)
next
  case (3 m pos ops)
  then show ?case by (simp add: neighbourMap_getNeighbours Un_assoc)
qed

subsection \<open>Registered relationships point at voxels\<close>

lemma negate_all_NEIGHBOURS:
  "list_all (\<lambda>off. Vector3_negate off \<in> set NEIGHBOURS) NEIGHBOURS"
  by (simp add: NEIGHBOURS_def Vector3_negate_def)

lemma negate_NEIGHBOURS: "off \<in> set NEIGHBOURS \<Longrightarrow> Vector3_negate off \<in> set NEIGHBOURS"
  using negate_all_NEIGHBOURS by (simp add: list_all_iff)

lemma add_negate:
  "Vector3_add (Vector3_add (origin :: int Vector3) off) (Vector3_negate off) = origin"
  by (simp add: Vector3_add_def Vector3_negate_def)

lemma evaluateNeighbours_sound:
  "(q, d) \<in> set (evaluateNeighbours m origin) \<Longrightarrow>
     isVoxelAt m (Vector3_add q d) \<and> d \<in> set NEIGHBOURS
     \<and> enableAmbientOcclusion (voxelMeshParams m)"
  by (auto simp: evaluateNeighbours_def add_negate negate_NEIGHBOURS split: if_splits)

lemma step_cache_sound: "cache_sound m \<Longrightarrow> cache_sound (VoxelMesh_step m op)"
proof (cases op)
  case (Op_addVoxel p c)
  assume "cache_sound m"
  then show ?thesis
    using Op_addVoxel
    by (auto simp: cache_sound_def neighbourMap_addVoxel isVoxelAt_addVoxel params_addVoxel)
next
  case (Op_getNeighbours p)
  assume "cache_sound m"
  then show ?thesis
    using Op_getNeighbours
    by (auto simp: cache_sound_def neighbourMap_getNeighbours isVoxelAt_getNeighbours
          params_getNeighbours dest: evaluateNeighbours_sound)
qed

lemma run_cache_sound: "cache_sound m \<Longrightarrow> cache_sound (VoxelMesh_run m ops)"
  by (induction ops arbitrary: m) (simp_all add: step_cache_sound)

subsection \<open>The test \<open>Voxel neighbours\<close>\<close>

lemma isVoxelAt_test_mesh: "isVoxelAt test_mesh pos \<longleftrightarrow> pos = Vector3 1 2 3"
  by (simp add: isVoxelAt_def test_mesh_def addVoxel_def VoxelMesh_new_def)

lemma ao_test_mesh: "enableAmbientOcclusion (voxelMeshParams test_mesh)"
  by (simp add: test_mesh_def addVoxel_def VoxelMesh_new_def test_params_def)

lemma neighbourMap_test_mesh: "neighbourMap test_mesh = {}"
  by (simp add: test_mesh_def addVoxel_def VoxelMesh_new_def)

lemma run_test_ops:
  "VoxelMesh_run (VoxelMesh_new (test_params overlap_first True)) test_ops
     = fst (getNeighbours test_mesh (Vector3 1 2 3))"
  by (simp add: test_ops_def test_mesh_def)

lemma produced_test_ops:
  "produced (VoxelMesh_new (test_params overlap_first True)) test_ops
     = evaluateNeighbours test_mesh (Vector3 1 2 3)"
  by (simp add: test_ops_def test_mesh_def)

lemma evaluateNeighbours_test_mesh:
  "evaluateNeighbours test_mesh (Vector3 1 2 3)
     = [(Vector3_add (Vector3 1 2 3) off, Vector3_negate off). off \<leftarrow> NEIGHBOURS]"
proof -
  have "[(Vector3 1 2 3, off). off \<leftarrow> NEIGHBOURS,
           isVoxelAt test_mesh (Vector3_add (Vector3 1 2 3) off)] = []"
    by (simp add: isVoxelAt_test_mesh NEIGHBOURS_def Vector3_add_def)
  then show ?thesis
    by (simp add: evaluateNeighbours_def ao_test_mesh isVoxelAt_test_mesh)
qed

text \<open>
  The expectations of the test, in its order: the count at the voxel is 0, the face
  relationship is not registered, the four edge and corner relationships are.
\<close>

lemma test_Voxel_neighbours:
  "keyDirections (snd (getNeighbours test_mesh (Vector3 1 2 3))) = 0"
  "\<not> hasNeighbour (fst (getNeighbours test_mesh (Vector3 1 2 3)))
       (Vector3_add (Vector3 1 2 3) (Vector3 1 0 0)) (Vector3 (-1) 0 0)"
  "hasNeighbour (fst (getNeighbours test_mesh (Vector3 1 2 3)))
       (Vector3_add (Vector3 1 2 3) (Vector3 1 1 0)) (Vector3 (-1) (-1) 0)"
  "hasNeighbour (fst (getNeighbours test_mesh (Vector3 1 2 3)))
       (Vector3_add (Vector3 1 2 3) (Vector3 (-1) (-1) 0)) (Vector3 1 1 0)"
  "hasNeighbour (fst (getNeighbours test_mesh (Vector3 1 2 3)))
       (Vector3_add (Vector3 1 2 3) (Vector3 1 (-1) 1)) (Vector3 (-1) 1 (-1))"
  "hasNeighbour (fst (getNeighbours test_mesh (Vector3 1 2 3)))
       (Vector3_add (Vector3 1 2 3) (Vector3 (-1) 0 1)) (Vector3 1 0 (-1))"
  by (simp_all add: getNeighbours_def hasNeighbour_def neighbourMap_test_mesh
        evaluateNeighbours_test_mesh isVoxelAt_test_mesh NEIGHBOURS_def Vector3_add_def
        Vector3_negate_def)

subsection \<open>Neighbour queries (C1, C6)\<close>

text \<open>
  C1, as the tests have it. After any sequence of \<open>addVoxel\<close> and \<open>getNeighbours\<close> calls on a
  new mesh, \<open>hasNeighbour(p, d)\<close> is true if and only if the relationship \<open>(p, d)\<close> was
  registered by one of the \<open>getNeighbours\<close> evaluations of the sequence. When it is true,
  a voxel is stored at \<open>p + d\<close>, the cell adjacent to \<open>p\<close> via \<open>d\<close>; no voxel need be
  stored at \<open>p\<close>.
\<close>

theorem hasNeighbour_registered:
  "(hasNeighbour (VoxelMesh_run (VoxelMesh_new ps) ops) p d
      \<longleftrightarrow> (p, d) \<in> set (produced (VoxelMesh_new ps) ops))
   \<and> (hasNeighbour (VoxelMesh_run (VoxelMesh_new ps) ops) p d \<longrightarrow>
        isVoxelAt (VoxelMesh_run (VoxelMesh_new ps) ops) (Vector3_add p d))"
proof -
  have "cache_sound (VoxelMesh_new ps)"
    by (simp add: cache_sound_def VoxelMesh_new_def)
  then have "cache_sound (VoxelMesh_run (VoxelMesh_new ps) ops)"
    by (rule run_cache_sound)
  moreover have "neighbourMap (VoxelMesh_new ps) = {}"
    by (simp add: VoxelMesh_new_def)
  ultimately show ?thesis
    by (auto simp: hasNeighbour_def neighbourMap_run cache_sound_def)
qed

text \<open>The test: \<open>(2,3,3)\<close> has the voxel \<open>(1,2,3)\<close> as its neighbour via \<open>(-1,-1,0)\<close>.\<close>

theorem hasNeighbour_registered_witness:
  "hasNeighbour (VoxelMesh_run (VoxelMesh_new (test_params overlap_first True)) test_ops)
       (Vector3 2 3 3) (Vector3 (-1) (-1) 0)
   \<and> (Vector3 2 3 3, Vector3 (-1) (-1) 0)
       \<in> set (produced (VoxelMesh_new (test_params overlap_first True)) test_ops)
   \<and> isVoxelAt (VoxelMesh_run (VoxelMesh_new (test_params overlap_first True)) test_ops)
       (Vector3 1 2 3)"
proof -
  have "(Vector3 2 3 3, Vector3 (-1) (-1) 0)
       \<in> set (produced (VoxelMesh_new (test_params overlap_first True)) test_ops)"
    by (simp add: produced_test_ops evaluateNeighbours_test_mesh NEIGHBOURS_def Vector3_add_def
          Vector3_negate_def)
  then show ?thesis
    using hasNeighbour_registered [of "test_params overlap_first True" test_ops
        "Vector3 2 3 3" "Vector3 (-1) (-1) 0"]
    by (simp add: Vector3_add_def)
qed

text \<open>
  The claim as stated fails on the scenario of the test: \<open>hasNeighbour\<close> is true at
  \<open>(2,3,3)\<close>, where no voxel is stored.
\<close>

theorem hasNeighbour_unoccupied_counterexample:
  "hasNeighbour (VoxelMesh_run (VoxelMesh_new (test_params overlap_first True)) test_ops)
       (Vector3 2 3 3) (Vector3 (-1) (-1) 0)
   \<and> \<not> isVoxelAt (VoxelMesh_run (VoxelMesh_new (test_params overlap_first True)) test_ops)
       (Vector3 2 3 3)"
  by (simp add: run_test_ops isVoxelAt_getNeighbours isVoxelAt_test_mesh hasNeighbour_def
        neighbourMap_getNeighbours neighbourMap_test_mesh evaluateNeighbours_test_mesh
        NEIGHBOURS_def Vector3_add_def Vector3_negate_def)

text \<open>
  C6. For every pair \<open>(q, d)\<close> that none of the \<open>getNeighbours\<close> evaluations of a sequence
  of calls on a new mesh produced, \<open>hasNeighbour(q, d)\<close> returns false afterwards, whether
  or not voxels are stored at \<open>q\<close> or at \<open>q + d\<close>.
\<close>

theorem hasNeighbour_unproduced:
  "(q, d) \<notin> set (produced (VoxelMesh_new ps) ops)
     \<Longrightarrow> \<not> hasNeighbour (VoxelMesh_run (VoxelMesh_new ps) ops) q d"
  by (simp add: hasNeighbour_def neighbourMap_run VoxelMesh_new_def)

text \<open>
  The test: the face relationship of \<open>(2,2,3)\<close> towards the voxel \<open>(1,2,3)\<close> was not
  produced, and \<open>hasNeighbour\<close> is false although the voxel exists.
\<close>

theorem hasNeighbour_unproduced_witness:
  "(Vector3 2 2 3, Vector3 (-1) 0 0)
       \<notin> set (produced (VoxelMesh_new (test_params overlap_first True)) test_ops)
   \<and> isVoxelAt (VoxelMesh_run (VoxelMesh_new (test_params overlap_first True)) test_ops)
       (Vector3_add (Vector3 2 2 3) (Vector3 (-1) 0 0))
   \<and> \<not> hasNeighbour (VoxelMesh_run (VoxelMesh_new (test_params overlap_first True)) test_ops)
       (Vector3 2 2 3) (Vector3 (-1) 0 0)"
proof -
  have "(Vector3 2 2 3, Vector3 (-1) 0 0)
       \<notin> set (produced (VoxelMesh_new (test_params overlap_first True)) test_ops)"
    by (simp add: produced_test_ops evaluateNeighbours_test_mesh NEIGHBOURS_def Vector3_add_def
          Vector3_negate_def)
  then show ?thesis
    using hasNeighbour_unproduced [of "Vector3 2 2 3" "Vector3 (-1) 0 0"
        "test_params overlap_first True" test_ops]
    by (simp add: run_test_ops isVoxelAt_getNeighbours isVoxelAt_test_mesh Vector3_add_def)
qed

subsection \<open>Overlapping writes (C5)\<close>

text \<open>
  C5. For every coordinate \<open>p\<close> not yet occupied and colours \<open>c1\<close>, \<open>c2\<close>: after
  \<open>addVoxel(p, c1)\<close> followed by \<open>addVoxel(p, c2)\<close>, with overlap rule \<open>first\<close> the voxel at
  \<open>p\<close> has colour \<open>c1\<close>, and with overlap rule \<open>average\<close> it has the componentwise mean of
  \<open>c1\<close> and \<open>c2\<close>.
\<close>

theorem addVoxel_overlap:
  assumes "\<not> isVoxelAt m p"
  shows "(voxelOverlapRule (voxelMeshParams m) = overlap_first \<longrightarrow>
            getVoxelAt (addVoxel (addVoxel m p c1) p c2) p
              = Some \<lparr> position = p, colour = c1 \<rparr>)
       \<and> (voxelOverlapRule (voxelMeshParams m) = overlap_average \<longrightarrow>
            getVoxelAt (addVoxel (addVoxel m p c1) p c2) p
              = Some \<lparr> position = p,
                       colour = RGBA ((rgba_r c1 + rgba_r c2) / 2) ((rgba_g c1 + rgba_g c2) / 2)
                                     ((rgba_b c1 + rgba_b c2) / 2) ((rgba_a c1 + rgba_a c2) / 2) \<rparr>)"
  using assms
  by (simp add: isVoxelAt_def getVoxelAt_def addVoxel_def averageStep_def Let_def field_simps)

text \<open>The tests \<open>Voxel overlap first\<close> and \<open>Voxel overlap average\<close>.\<close>

theorem addVoxel_overlap_witness:
  "\<not> isVoxelAt (VoxelMesh_new (test_params overlap_first False)) (Vector3 1 2 3)
   \<and> \<not> isVoxelAt (VoxelMesh_new (test_params overlap_average False)) (Vector3 1 2 3)
   \<and> getVoxelAt (addVoxel (addVoxel (VoxelMesh_new (test_params overlap_first False))
        (Vector3 1 2 3) RGBAColours_RED) (Vector3 1 2 3) RGBAColours_BLUE) (Vector3 1 2 3)
       = Some \<lparr> position = Vector3 1 2 3, colour = RGBAColours_RED \<rparr>
   \<and> getVoxelAt (addVoxel (addVoxel (VoxelMesh_new (test_params overlap_average False))
        (Vector3 1 2 3) (RGBA 1 0.5 0.25 1)) (Vector3 1 2 3) (RGBA 0 0.5 0.75 1)) (Vector3 1 2 3)
       = Some \<lparr> position = Vector3 1 2 3, colour = RGBA 0.5 0.5 0.5 1 \<rparr>"
  using addVoxel_overlap [of "VoxelMesh_new (test_params overlap_first False)" "Vector3 1 2 3"
          RGBAColours_RED RGBAColours_BLUE]
        addVoxel_overlap [of "VoxelMesh_new (test_params overlap_average False)" "Vector3 1 2 3"
          "RGBA 1 0.5 0.25 1" "RGBA 0 0.5 0.75 1"]
  by (simp add: isVoxelAt_def VoxelMesh_new_def test_params_def)

end
